theory Spec2Isabelle
  imports Main "HOL-Library.Word" "HOL-Library.Signed_Division"
begin

section \<open>Host values\<close>

text \<open>
  The evaluator of \<^verbatim>\<open>vm.go\<close> works on Go values of type \<^verbatim>\<open>interface{}\<close> through
  package \<^verbatim>\<open>reflect\<close>. A value is modelled by its dynamic type and contents. Pointer
  chains are finite trees; host functions and methods are referred to by an identifier
  and run by the host (a parameter of the evaluator).
\<close>

type_synonym int64 = "64 word"
type_synonym int32 = "32 word"
type_synonym fid = nat

text \<open>A float: sign (True is negative), significand and binary exponent; infinities; NaN.\<close>

datatype float = FFin bool nat int | FInf bool | FNaN

text \<open>The key type of a map decides whether \<^verbatim>\<open>MapIndex\<close> accepts a string key.\<close>

datatype keyty = KString | KIface | KOther

text \<open>A defined (named) type: its name, the methods with a value receiver and the
  methods with a pointer receiver.\<close>

datatype tydesc = TyDesc string "(string \<times> fid) list" "(string \<times> fid) list"

datatype val =
    VNil
  | VString string
  | VInt int64
  | VInt32 int32
  | VInt64 int64
  | VFloat32 float
  | VFloat64 float
  | VPtr "val option"
  | VStruct "(string \<times> val) list"
  | VMap keyty "(val \<times> val) list"
  | VSlice "val list"
  | VFunc fid
  | VError string
  | VNamed tydesc val
  | VOther string

datatype kind = Invalid | KindString | KindInt | KindInt32 | KindInt64 | KindFloat32
  | KindFloat64 | KindPtr | KindStruct | KindMap | KindSlice | KindFunc | KindOther

fun Kind :: "val \<Rightarrow> kind" where
  "Kind VNil = Invalid"
| "Kind (VString _) = KindString"
| "Kind (VInt _) = KindInt"
| "Kind (VInt32 _) = KindInt32"
| "Kind (VInt64 _) = KindInt64"
| "Kind (VFloat32 _) = KindFloat32"
| "Kind (VFloat64 _) = KindFloat64"
| "Kind (VPtr _) = KindPtr"
| "Kind (VStruct _) = KindStruct"
| "Kind (VMap _ _) = KindMap"
| "Kind (VSlice _) = KindSlice"
| "Kind (VFunc _) = KindFunc"
| "Kind (VError _) = KindOther"
| "Kind (VNamed _ v) = Kind v"
| "Kind (VOther _) = KindOther"

text \<open>The contents of a value below its defined types.\<close>

fun underlying :: "val \<Rightarrow> val" where
  "underlying (VNamed _ v) = underlying v"
| "underlying v = v"

section \<open>Errors, panics and results\<close>

text \<open>An \<^verbatim>\<open>error\<close> value: a message (\<^verbatim>\<open>errors.New\<close>, \<^verbatim>\<open>fmt.Errorf\<close>), a
  \<^verbatim>\<open>*strconv.NumError\<close> (function, input, reason) or an error returned by the host.\<close>

datatype error = EStr string | ENum string string string | EHost string

datatype panic =
    DivideByZero
  | ReflectCall
  | ReflectIndex
  | ReflectMapIndex
  | ReflectInterface
  | NilDeref
  | TypeAssertion
  | HostPanic

text \<open>\<^verbatim>\<open>Eval\<close> returns a pair (value, error), or the call does not return: it panics.\<close>

datatype outcome = Ret val "error option" | Panic panic

datatype callres = CRet "val list" | CPanic

record host =
  call :: "fid \<Rightarrow> val list \<Rightarrow> callres"
  sprint_other :: "val \<Rightarrow> string"
  parse_float :: "string \<Rightarrow> error + float"
  fl_add :: "float \<Rightarrow> float \<Rightarrow> float"
  fl_sub :: "float \<Rightarrow> float \<Rightarrow> float"
  fl_mul :: "float \<Rightarrow> float \<Rightarrow> float"
  fl_quot :: "float \<Rightarrow> float \<Rightarrow> float"

section \<open>Formatting and parsing integers\<close>

definition digit_char :: "nat \<Rightarrow> char" where
  "digit_char d = ''0123456789'' ! d"

fun digits :: "nat \<Rightarrow> string" where
  "digits n = (if n < 10 then [digit_char n] else digits (n div 10) @ [digit_char (n mod 10)])"

declare digits.simps [simp del]

definition itoa :: "int \<Rightarrow> string" where
  "itoa i = (if i < 0 then CHR ''-'' # digits (nat (- i)) else digits (nat i))"

definition is_digit :: "char \<Rightarrow> bool" where
  "is_digit c \<longleftrightarrow> 48 \<le> (of_char c :: nat) \<and> (of_char c :: nat) \<le> 57"

definition is_letter_digit :: "char \<Rightarrow> bool" where
  "is_letter_digit c \<longleftrightarrow>
     (97 \<le> (of_char c :: nat) \<and> (of_char c :: nat) \<le> 122) \<or>
     (65 \<le> (of_char c :: nat) \<and> (of_char c :: nat) \<le> 90)"

datatype numerr = ErrSyntax | ErrRange

text \<open>The loop of \<^verbatim>\<open>strconv.ParseUint\<close> for base 10 and 64 bits, \<open>n\<close> the value so far.\<close>

fun ParseUint_loop :: "nat \<Rightarrow> string \<Rightarrow> numerr + nat" where
  "ParseUint_loop n [] = Inr n"
| "ParseUint_loop n (c # cs) =
     (if \<not> is_digit c then Inl ErrSyntax
      else if n \<ge> 1844674407370955162 then Inl ErrRange
      else let n1 = n * 10 + ((of_char c :: nat) - 48)
           in if n1 > 18446744073709551615 then Inl ErrRange else ParseUint_loop n1 cs)"

definition ParseUint :: "string \<Rightarrow> numerr + nat" where
  "ParseUint s = (if s = [] then Inl ErrSyntax else ParseUint_loop 0 s)"

definition num_error :: "string \<Rightarrow> numerr \<Rightarrow> error" where
  "num_error s0 e = ENum ''ParseInt'' s0
     (case e of ErrSyntax \<Rightarrow> ''invalid syntax'' | ErrRange \<Rightarrow> ''value out of range'')"

text \<open>\<^verbatim>\<open>strconv.ParseInt(s, 10, 64)\<close>.\<close>

definition ParseInt :: "string \<Rightarrow> error + int64" where
  "ParseInt s0 =
     (if s0 = [] then Inl (num_error s0 ErrSyntax)
      else
        let neg = (hd s0 = CHR ''-'');
            s = (if hd s0 = CHR ''+'' \<or> hd s0 = CHR ''-'' then tl s0 else s0)
        in case ParseUint s of
             Inl ErrSyntax \<Rightarrow> Inl (num_error s0 ErrSyntax)
           | Inl ErrRange \<Rightarrow> Inl (num_error s0 ErrRange)
           | Inr un \<Rightarrow>
               if \<not> neg \<and> un \<ge> 9223372036854775808 then Inl (num_error s0 ErrRange)
               else if neg \<and> un > 9223372036854775808 then Inl (num_error s0 ErrRange)
               else Inr (if neg then - word_of_nat un else word_of_nat un))"


section \<open>Formatting values, float division\<close>

text \<open>\<^verbatim>\<open>fmt.Sprint\<close> of one value. The text of strings, of the predeclared integer types and
  of nil is fixed; every other text (floats, composite values, types with their own
  \<^verbatim>\<open>String\<close> or \<^verbatim>\<open>Error\<close> method) is the host's.\<close>

fun fmtSprint :: "host \<Rightarrow> val \<Rightarrow> string" where
  "fmtSprint h VNil = ''<nil>''"
| "fmtSprint h (VString s) = s"
| "fmtSprint h (VInt w) = itoa (sint w)"
| "fmtSprint h (VInt32 w) = itoa (sint w)"
| "fmtSprint h (VInt64 w) = itoa (sint w)"
| "fmtSprint h v = sprint_other h v"

fun fzero :: "float \<Rightarrow> bool" where
  "fzero (FFin _ m _) = (m = 0)"
| "fzero _ = False"

fun fsign :: "float \<Rightarrow> bool" where
  "fsign (FFin s _ _) = s"
| "fsign (FInf s) = s"
| "fsign FNaN = False"

text \<open>Float division: a zero divisor gives NaN for a zero or NaN dividend and an infinity
  with the product of the signs otherwise; the rounded quotient by a divisor that is not
  zero is the host's arithmetic.\<close>

definition fl_div :: "host \<Rightarrow> float \<Rightarrow> float \<Rightarrow> float" where
  "fl_div h x y =
     (if fzero y then
        (case x of
           FNaN \<Rightarrow> FNaN
         | FInf s \<Rightarrow> FInf (s \<noteq> fsign y)
         | FFin s m e \<Rightarrow> if m = 0 then FNaN else FInf (s \<noteq> fsign y))
      else fl_quot h x y)"

section \<open>Expressions\<close>

text \<open>The node types built by the parser's actions; \<open>NilExpr\<close> is the nil interface.\<close>

datatype Expr =
    NilExpr
  | IdentExpr string
  | LitExpr val
  | BinOpExpr string Expr Expr
  | CallExpr string "Expr list"
  | MethodCallExpr Expr string "Expr list"
  | MemberExpr Expr string
  | ItemExpr Expr Expr
  | ForExpr string string Expr

section \<open>The evaluator\<close>

datatype 'a res = Ok 'a | Err error | Pan panic

text \<open>\<^verbatim>\<open>deref\<close>: follow pointers and interfaces; the zero \<^verbatim>\<open>reflect.Value\<close> is an error.\<close>

fun deref :: "val \<Rightarrow> val res" where
  "deref VNil = Err (EStr ''cannot reference value'')"
| "deref (VPtr None) = Err (EStr ''cannot reference value'')"
| "deref (VPtr (Some v)) = deref v"
| "deref (VNamed d v) = (if Kind v \<in> {KindPtr, Invalid} then deref v else Ok (VNamed d v))"
| "deref v = Ok v"

text \<open>The part of \<^verbatim>\<open>evalAndDerefRv\<close> after the call of \<^verbatim>\<open>Eval\<close>.\<close>

fun derefOutcome :: "outcome \<Rightarrow> val res" where
  "derefOutcome (Panic p) = Pan p"
| "derefOutcome (Ret v (Some e)) = Err e"
| "derefOutcome (Ret v None) = deref v"

definition is_exported :: "string \<Rightarrow> bool" where
  "is_exported n \<longleftrightarrow> n \<noteq> [] \<and> 65 \<le> (of_char (hd n) :: nat) \<and> (of_char (hd n) :: nat) \<le> 90"

text \<open>\<^verbatim>\<open>rv.FieldByName(n)\<close> followed by \<^verbatim>\<open>IsValid\<close> and \<^verbatim>\<open>Interface()\<close>, which panics
  on a field that is not exported.\<close>

definition fieldValue :: "(string \<times> val) list \<Rightarrow> string \<Rightarrow> string \<Rightarrow> outcome" where
  "fieldValue fs n msg =
     (case map_of fs n of
        None \<Rightarrow> Ret VNil (Some (EStr msg))
      | Some x \<Rightarrow> if is_exported n then Ret x None else Panic ReflectInterface)"

text \<open>\<^verbatim>\<open>rv.MapIndex(reflect.ValueOf(k))\<close> with a string \<open>k\<close>: a panic unless a string is
  assignable to the key type.\<close>

definition mapValue :: "keyty \<Rightarrow> (val \<times> val) list \<Rightarrow> string \<Rightarrow> string \<Rightarrow> outcome" where
  "mapValue kt m k msg =
     (if kt = KOther then Panic ReflectMapIndex
      else case map_of m (VString k) of
             None \<Rightarrow> Ret VNil (Some (EStr msg))
           | Some x \<Rightarrow> Ret x None)"

text \<open>\<^verbatim>\<open>rv.Index(int(rhs.(int64)))\<close> on a slice: the assertion panics for a defined type
  of kind int64, \<^verbatim>\<open>Index\<close> panics out of range.\<close>

definition sliceValue :: "val list \<Rightarrow> val \<Rightarrow> outcome" where
  "sliceValue xs rhs =
     (case rhs of
        VInt64 i \<Rightarrow>
          if 0 \<le> sint i \<and> sint i < int (length xs) then Ret (xs ! nat (sint i)) None
          else Panic ReflectIndex
      | _ \<Rightarrow> Panic TypeAssertion)"

definition is_error :: "val \<Rightarrow> bool" where
  "is_error v \<longleftrightarrow> (case v of VError _ \<Rightarrow> True | _ \<Rightarrow> False)"

definition error_of :: "val \<Rightarrow> error" where
  "error_of v = (case v of VError m \<Rightarrow> EHost m | _ \<Rightarrow> EHost [])"

text \<open>What \<^verbatim>\<open>Eval\<close> returns from the results of a call.\<close>

fun returns :: "val list \<Rightarrow> outcome" where
  "returns [] = Ret VNil None"
| "returns [x] = Ret x None"
| "returns (x # y # _) = (if is_error y then Ret x (Some (error_of y)) else Ret x None)"

text \<open>\<^verbatim>\<open>rf.Call(args)\<close>: a panic when the value is not a function or an argument is the
  zero Value; otherwise the host runs the function.\<close>

definition reflectCall :: "host \<Rightarrow> val \<Rightarrow> val list \<Rightarrow> outcome" where
  "reflectCall h f args =
     (case underlying f of
        VFunc i \<Rightarrow>
          if VNil \<in> set args then Panic ReflectCall
          else (case call h i args of CPanic \<Rightarrow> Panic HostPanic | CRet rets \<Rightarrow> returns rets)
      | _ \<Rightarrow> Panic ReflectCall)"

text \<open>\<^verbatim>\<open>rv.MethodByName(n)\<close> on the value, then on a pointer to a copy of it.\<close>

fun valueMethod :: "val \<Rightarrow> string \<Rightarrow> fid option" where
  "valueMethod (VNamed (TyDesc _ vm pm) _) n = map_of vm n"
| "valueMethod _ n = None"

fun pointerMethod :: "val \<Rightarrow> string \<Rightarrow> fid option" where
  "pointerMethod (VNamed (TyDesc _ vm pm) _) n = map_of (vm @ pm) n"
| "pointerMethod _ n = None"

definition methodCall :: "host \<Rightarrow> fid \<Rightarrow> val \<Rightarrow> val list \<Rightarrow> outcome" where
  "methodCall h i recv args =
     (case call h i (recv # args) of CPanic \<Rightarrow> Panic HostPanic | CRet rets \<Rightarrow> returns rets)"

definition intOp :: "string \<Rightarrow> int64 \<Rightarrow> int64 \<Rightarrow> outcome" where
  "intOp op li ri =
     (if op = ''+'' then Ret (VInt64 (li + ri)) None
      else if op = ''-'' then Ret (VInt64 (li - ri)) None
      else if op = ''*'' then Ret (VInt64 (li * ri)) None
      else if op = ''/'' then (if ri = 0 then Panic DivideByZero else Ret (VInt64 (word_of_int (sint li sdiv sint ri))) None)
      else Ret VNil (Some (EStr ''unknown operator'')))"

definition floatOp :: "host \<Rightarrow> string \<Rightarrow> float \<Rightarrow> float \<Rightarrow> outcome" where
  "floatOp h op lf rf =
     (if op = ''+'' then Ret (VFloat64 (fl_add h lf rf)) None
      else if op = ''-'' then Ret (VFloat64 (fl_sub h lf rf)) None
      else if op = ''*'' then Ret (VFloat64 (fl_mul h lf rf)) None
      else if op = ''/'' then Ret (VFloat64 (fl_div h lf rf)) None
      else Ret VNil (Some (EStr ''unknown operator'')))"

text \<open>The type switch of the \<^verbatim>\<open>BinOpExpr\<close> case, on the left operand.\<close>

definition binOp :: "host \<Rightarrow> string \<Rightarrow> val \<Rightarrow> val \<Rightarrow> outcome" where
  "binOp h op lhs rhs =
     (case lhs of
        VString vt \<Rightarrow>
          if op = ''+'' then Ret (VString (vt @ fmtSprint h rhs)) None
          else Ret VNil (Some (EStr ''unknown operator''))
      | _ \<Rightarrow>
        if Kind lhs \<in> {KindInt, KindInt32, KindInt64} \<and> underlying lhs = lhs then
          (case ParseInt (fmtSprint h lhs) of
             Inl e \<Rightarrow> Ret VNil (Some e)
           | Inr li \<Rightarrow>
               (case ParseInt (fmtSprint h rhs) of
                  Inl e \<Rightarrow> Ret VNil (Some e)
                | Inr ri \<Rightarrow> intOp op li ri))
        else if Kind lhs \<in> {KindFloat32, KindFloat64} \<and> underlying lhs = lhs then
          (case parse_float h (fmtSprint h lhs) of
             Inl e \<Rightarrow> Ret VNil (Some e)
           | Inr lf \<Rightarrow>
               (case parse_float h (fmtSprint h rhs) of
                  Inl e \<Rightarrow> Ret VNil (Some e)
                | Inr rf \<Rightarrow> floatOp h op lf rf))
        else Ret VNil (Some (EStr ''invalid type conversion'')))"

text \<open>The three branches of the \<^verbatim>\<open>ItemExpr\<close> case after both operands are known.\<close>

definition itemOf :: "host \<Rightarrow> val \<Rightarrow> val \<Rightarrow> outcome" where
  "itemOf h rv rhs =
     (case underlying rv of
        VStruct fs \<Rightarrow> fieldValue fs (fmtSprint h rhs) ''cannot reference item''
      | VMap kt m \<Rightarrow> mapValue kt m (fmtSprint h rhs) ''cannot reference item''
      | VSlice xs \<Rightarrow>
          if rhs = VNil then Panic NilDeref
          else if Kind rhs = KindInt64 then sliceValue xs rhs
          else Ret VNil (Some (EStr ''cannot reference item''))
      | _ \<Rightarrow> Ret VNil (Some (EStr ''cannot reference item'')))"

definition memberOf :: "val \<Rightarrow> string \<Rightarrow> outcome" where
  "memberOf rv n =
     (case underlying rv of
        VStruct fs \<Rightarrow> fieldValue fs n ''cannot reference member''
      | VMap kt m \<Rightarrow> mapValue kt m n ''cannot reference member''
      | _ \<Rightarrow> Ret VNil (Some (EStr ''cannot reference member'')))"

type_synonym env = "string \<rightharpoonup> val"

text \<open>\<^verbatim>\<open>Eval\<close>, with the argument loops of the two call cases: \<open>evalArgs\<close> evaluates the
  arguments of a \<^verbatim>\<open>CallExpr\<close>, \<open>evalDerefArgs\<close> those of a \<^verbatim>\<open>MethodCallExpr\<close>; either
  stops at the first error or panic.\<close>

fun Eval :: "host \<Rightarrow> env \<Rightarrow> Expr \<Rightarrow> outcome"
  and evalArgs :: "host \<Rightarrow> env \<Rightarrow> Expr list \<Rightarrow> val list res"
  and evalDerefArgs :: "host \<Rightarrow> env \<Rightarrow> Expr list \<Rightarrow> val list res" where
  "Eval h env (IdentExpr n) =
     (case env n of Some r \<Rightarrow> Ret r None | None \<Rightarrow> Ret VNil (Some (EStr (''invalid token: '' @ n))))"
| "Eval h env (LitExpr x) = Ret x None"
| "Eval h env (BinOpExpr op l r) =
     (case Eval h env l of
        Panic p \<Rightarrow> Panic p
      | Ret _ (Some e) \<Rightarrow> Ret VNil (Some e)
      | Ret lhs None \<Rightarrow>
          (case Eval h env r of
             Panic p \<Rightarrow> Panic p
           | Ret _ (Some e) \<Rightarrow> Ret VNil (Some e)
           | Ret rhs None \<Rightarrow> binOp h op lhs rhs))"
| "Eval h env (CallExpr n es) =
     (case env n of
        None \<Rightarrow> Ret VNil (Some (EStr (''invalid token: '' @ n)))
      | Some f \<Rightarrow>
          (case evalArgs h env es of
             Pan p \<Rightarrow> Panic p
           | Err e \<Rightarrow> Ret VNil (Some e)
           | Ok args \<Rightarrow> reflectCall h f args))"
| "Eval h env (ItemExpr l i) =
     (case derefOutcome (Eval h env l) of
        Pan p \<Rightarrow> Panic p
      | Err e \<Rightarrow> Ret VNil (Some e)
      | Ok rv \<Rightarrow>
          (case Eval h env i of
             Panic p \<Rightarrow> Panic p
           | Ret _ (Some e) \<Rightarrow> Ret VNil (Some e)
           | Ret rhs None \<Rightarrow> itemOf h rv rhs))"
| "Eval h env (MethodCallExpr l n es) =
     (case derefOutcome (Eval h env l) of
        Pan p \<Rightarrow> Panic p
      | Err e \<Rightarrow> Ret VNil (Some e)
      | Ok rv \<Rightarrow>
          (case valueMethod rv n of
             Some m \<Rightarrow>
               (case evalDerefArgs h env es of
                  Pan p \<Rightarrow> Panic p
                | Err e \<Rightarrow> Ret VNil (Some e)
                | Ok args \<Rightarrow> methodCall h m rv args)
           | None \<Rightarrow>
               (case pointerMethod rv n of
                  None \<Rightarrow> Ret VNil (Some (EStr (''cannot reference method: '' @ n)))
                | Some m \<Rightarrow>
                    (case evalDerefArgs h env es of
                       Pan p \<Rightarrow> Panic p
                     | Err e \<Rightarrow> Ret VNil (Some e)
                     | Ok args \<Rightarrow> methodCall h m (VPtr (Some rv)) args))))"
| "Eval h env (MemberExpr l n) =
     (case derefOutcome (Eval h env l) of
        Pan p \<Rightarrow> Panic p
      | Err e \<Rightarrow> Ret VNil (Some e)
      | Ok rv \<Rightarrow> memberOf rv n)"
| "Eval h env (ForExpr _ _ _) = Ret VNil None"
| "Eval h env NilExpr = Ret VNil None"
| "evalArgs h env [] = Ok []"
| "evalArgs h env (a # as) =
     (case Eval h env a of
        Panic p \<Rightarrow> Pan p
      | Ret _ (Some e) \<Rightarrow> Err e
      | Ret x None \<Rightarrow>
          (case evalArgs h env as of
             Pan p \<Rightarrow> Pan p
           | Err e \<Rightarrow> Err e
           | Ok xs \<Rightarrow> Ok (x # xs)))"
| "evalDerefArgs h env [] = Ok []"
| "evalDerefArgs h env (a # as) =
     (case derefOutcome (Eval h env a) of
        Pan p \<Rightarrow> Pan p
      | Err e \<Rightarrow> Err e
      | Ok x \<Rightarrow>
          (case evalDerefArgs h env as of
             Pan p \<Rightarrow> Pan p
           | Err e \<Rightarrow> Err e
           | Ok xs \<Rightarrow> Ok (x # xs)))"

definition evalAndDerefRv :: "host \<Rightarrow> env \<Rightarrow> Expr \<Rightarrow> val res" where
  "evalAndDerefRv h env e = derefOutcome (Eval h env e)"


section \<open>The parser\<close>

text \<open>The value stack holds records of type \<^verbatim>\<open>yySymType\<close>; the zero record is the content
  of a slot that was never written.\<close>

record yySymType =
  yys :: int
  expr :: Expr
  exprs :: "Expr list"
  str :: string
  lit :: val

definition zeroSym :: yySymType where
  "zeroSym = \<lparr> yys = 0, expr = NilExpr, exprs = [], str = [], lit = VNil \<rparr>"

definition IDENT :: int where "IDENT = 57346"
definition LIT :: int where "LIT = 57347"
definition FOR :: int where "FOR = 57348"
definition IN :: int where "IN = 57349"

definition yyEofCode :: int where "yyEofCode = 1"
definition yyErrCode :: int where "yyErrCode = 2"
definition yyPrivate :: int where "yyPrivate = 57344"
definition yyLast :: int where "yyLast = 53"
definition yyFlag :: int where "yyFlag = - 1000"

definition yyExca :: "int list" where
  "yyExca = [- 1, 1, 1, - 1, - 2, 0]"

definition yyAct :: "int list" where
  "yyAct = [26, 3, 31, 25, 37, 31, 14, 32, 29, 18,
    19, 20, 21, 15, 23, 16, 17, 27, 8, 9,
    10, 11, 12, 13, 30, 24, 8, 9, 10, 11,
    12, 13, 35, 34, 36, 8, 9, 10, 11, 12,
    13, 6, 4, 2, 6, 4, 5, 28, 33, 5,
    22, 7, 1]"

definition yyPact :: "int list" where
  "yyPact = [37, - 1000, 47, 24, - 1000, 40, 4, 8, 40, 40,
    40, 40, 46, 40, 15, 40, 40, 43, 24, 24,
    24, 24, - 1, 7, - 1000, - 3, 24, 24, 41, 40,
    - 1000, 40, - 1000, 40, - 6, 24, 24, - 1000]"

definition yyPgo :: "int list" where
  "yyPgo = [0, 52, 0, 3]"

definition yyR1 :: "int list" where
  "yyR1 = [0, 1, 1, 1, 3, 3, 3, 2, 2, 2,
    2, 2, 2, 2, 2, 2, 2, 2]"

definition yyR2 :: "int list" where
  "yyR2 = [0, 4, 6, 1, 0, 1, 3, 1, 3, 3,
    3, 3, 3, 4, 6, 3, 4, 1]"

definition yyChk :: "int list" where
  "yyChk = [- 1000, - 1, 6, - 2, 5, 9, 4, 4, 11, 12,
    13, 14, 15, 16, - 2, 9, 7, 8, - 2, - 2,
    - 2, - 2, 4, - 2, 10, - 3, - 2, - 2, 4, 9,
    17, 8, 10, 7, - 3, - 2, - 2, 10]"

definition yyDef :: "int list" where
  "yyDef = [0, - 2, 0, 3, 7, 0, 17, 0, 0, 0,
    0, 0, 0, 0, 0, 4, 0, 0, 9, 10,
    11, 12, 15, 0, 8, 0, 5, 1, 0, 4,
    16, 0, 13, 0, 0, 6, 2, 14]"

definition yyTok1 :: "int list" where
  "yyTok1 = [1, 3, 3, 3, 3, 3, 3, 3, 3, 3,
    3, 3, 3, 3, 3, 3, 3, 3, 3, 3,
    3, 3, 3, 3, 3, 3, 3, 3, 3, 3,
    3, 3, 3, 3, 3, 3, 3, 3, 3, 3,
    9, 10, 13, 11, 8, 12, 15, 14, 3, 3,
    3, 3, 3, 3, 3, 3, 3, 3, 3, 3,
    3, 3, 3, 3, 3, 3, 3, 3, 3, 3,
    3, 3, 3, 3, 3, 3, 3, 3, 3, 3,
    3, 3, 3, 3, 3, 3, 3, 3, 3, 3,
    3, 16, 3, 17]"

definition yyTok2 :: "int list" where
  "yyTok2 = [2, 3, 4, 5, 6, 7]"

text \<open>Reading a table at an index; the parser only reads inside the tables.\<close>

definition at :: "int list \<Rightarrow> int \<Rightarrow> int" where
  "at t i = t ! nat i"

subsection \<open>The lexer\<close>

text \<open>
  Modelled from the spec: the type \<^verbatim>\<open>Lexer\<close> with its methods \<^verbatim>\<open>Lex\<close> and \<^verbatim>\<open>Error\<close> is not
  part of the source at hand; the source shows its two fields (the scanner and the result
  slot \<^verbatim>\<open>e\<close> written by the parser's actions). The scanner is the sequence of lexical
  tokens still to be read: identifiers, the keywords \<^verbatim>\<open>for\<close> and \<^verbatim>\<open>in\<close>, literals with
  their inferred value, and single characters. \<^verbatim>\<open>Lex\<close> stores the text of an identifier in
  \<^verbatim>\<open>lval.str\<close> and the value of a literal in \<^verbatim>\<open>lval.lit\<close>, and returns the end marker
  forever once the input is used up. \<^verbatim>\<open>Error\<close> keeps nothing.
\<close>

datatype lexeme = LIdent string | LFor | LIn | LLit val | LChar nat

record Lexer =
  toks :: "lexeme list"
  lex_e :: Expr

fun lexChar :: "lexeme \<Rightarrow> int" where
  "lexChar (LIdent _) = IDENT"
| "lexChar LFor = FOR"
| "lexChar LIn = IN"
| "lexChar (LLit _) = LIT"
| "lexChar (LChar c) = int c"

fun lexVal :: "lexeme \<Rightarrow> yySymType \<Rightarrow> yySymType" where
  "lexVal (LIdent x) lv = lv\<lparr>str := x\<rparr>"
| "lexVal (LLit v) lv = lv\<lparr>lit := v\<rparr>"
| "lexVal _ lv = lv"

definition Lex :: "Lexer \<Rightarrow> yySymType \<Rightarrow> int \<times> Lexer \<times> yySymType" where
  "Lex lx lv = (case toks lx of
      [] \<Rightarrow> (- 1, lx, lv)
    | t # ts \<Rightarrow> (lexChar t, lx\<lparr>toks := ts\<rparr>, lexVal t lv))"

text \<open>\<^verbatim>\<open>yylex1\<close>: the character from the lexer and its token number. The table
  \<^verbatim>\<open>yyTok3\<close> holds no pair, so a character found in neither \<^verbatim>\<open>yyTok1\<close> nor \<^verbatim>\<open>yyTok2\<close>
  is the unknown token \<^verbatim>\<open>yyTok2[1]\<close>.\<close>

definition tokenOf :: "int \<Rightarrow> int" where
  "tokenOf c =
     (let token =
        (if c \<le> 0 then at yyTok1 0
         else if c < int (length yyTok1) then at yyTok1 c
         else if c \<ge> yyPrivate \<and> c < yyPrivate + int (length yyTok2) then at yyTok2 (c - yyPrivate)
         else 0)
      in if token = 0 then at yyTok2 1 else token)"

definition yylex1 :: "Lexer \<Rightarrow> yySymType \<Rightarrow> int \<times> int \<times> Lexer \<times> yySymType" where
  "yylex1 lx lv = (case Lex lx lv of (c, lx', lv') \<Rightarrow> (c, tokenOf c, lx', lv'))"

subsection \<open>The state of \<^verbatim>\<open>Parse\<close>\<close>

text \<open>
  The array \<^verbatim>\<open>yyS\<close> with its index \<^verbatim>\<open>yyp\<close> is kept as two lists: \<open>stack\<close> holds
  \<^verbatim>\<open>yyS[yyp]\<close>, \<^verbatim>\<open>yyS[yyp-1]\<close>, ... down to \<^verbatim>\<open>yyS[0]\<close>, and \<open>above\<close> holds the slots
  \<^verbatim>\<open>yyS[yyp+1]\<close>, \<^verbatim>\<open>yyS[yyp+2]\<close>, ... that were written before; every slot beyond is zero.
\<close>

record pstate =
  stack :: "yySymType list"
  above :: "yySymType list"
  yystate :: int
  yychar :: int
  yytoken :: int
  lval :: yySymType
  yyVAL :: yySymType
  Errflag :: int
  Nerrs :: int
  lexer :: Lexer

datatype pstep = Continue pstate | Done int pstate | Crash

text \<open>Label \<^verbatim>\<open>yystack\<close>: put the state and the value onto the stack.\<close>

definition yystack :: "pstate \<Rightarrow> pstate" where
  "yystack s = s\<lparr> stack := (yyVAL s)\<lparr>yys := yystate s\<rparr> # stack s, above := tl (above s) \<rparr>"

text \<open>Read the lookahead when there is none.\<close>

definition lookahead :: "pstate \<Rightarrow> pstate" where
  "lookahead s =
     (if yychar s < 0 then
        (case yylex1 (lexer s) (lval s) of
           (c, t, lx, lv) \<Rightarrow> s\<lparr> yychar := c, yytoken := t, lexer := lx, lval := lv \<rparr>)
      else s)"

text \<open>The two loops over the exception table.\<close>

fun exca_state :: "int list \<Rightarrow> int \<Rightarrow> int list option" where
  "exca_state (a # b # rest) st = (if a = - 1 \<and> b = st then Some rest else exca_state rest st)"
| "exca_state _ st = None"

fun exca_tok :: "int list \<Rightarrow> int \<Rightarrow> int option" where
  "exca_tok (a # b # rest) tok = (if a < 0 \<or> a = tok then Some b else exca_tok rest tok)"
| "exca_tok _ tok = None"

text \<open>Error recovery: the topmost stack entry whose state shifts the error token.\<close>

fun find_errshift :: "yySymType list \<Rightarrow> yySymType list \<Rightarrow> (int \<times> yySymType list \<times> yySymType list) option" where
  "find_errshift [] ab = None"
| "find_errshift (x # xs) ab =
     (let yyn = at yyPact (yys x) + yyErrCode in
      if 0 \<le> yyn \<and> yyn < yyLast \<and> at yyChk (at yyAct yyn) = yyErrCode
      then Some (at yyAct yyn, x # xs, ab)
      else find_errshift xs (x # ab))"

definition recover :: "pstate \<Rightarrow> pstep" where
  "recover s =
     (case find_errshift (stack s) (above s) of
        None \<Rightarrow> Done 1 (s\<lparr>Errflag := 3\<rparr>)
      | Some (st, stk, ab) \<Rightarrow>
          Continue (yystack (s\<lparr> Errflag := 3, yystate := st, stack := stk, above := ab \<rparr>)))"

text \<open>The semantic actions; \<open>d k\<close> is \<^verbatim>\<open>yyDollar[k]\<close>.\<close>

definition dollar :: "yySymType list \<Rightarrow> nat \<Rightarrow> yySymType" where
  "dollar ab k = (if k - 1 < length ab then ab ! (k - 1) else zeroSym)"

definition action :: "int \<Rightarrow> (nat \<Rightarrow> yySymType) \<Rightarrow> pstate \<Rightarrow> pstate" where
  "action yynt d s =
    (if yynt = 1 then s\<lparr>lexer := (lexer s)\<lparr>lex_e := ForExpr (str (d 2)) [] (expr (d 4))\<rparr>\<rparr>
     else if yynt = 2 then s\<lparr>lexer := (lexer s)\<lparr>lex_e := ForExpr (str (d 2)) (str (d 4)) (expr (d 6))\<rparr>\<rparr>
     else if yynt = 3 then s\<lparr>lexer := (lexer s)\<lparr>lex_e := expr (d 1)\<rparr>\<rparr>
     else if yynt = 4 then s\<lparr>yyVAL := (yyVAL s)\<lparr>exprs := []\<rparr>\<rparr>
     else if yynt = 5 then s\<lparr>yyVAL := (yyVAL s)\<lparr>exprs := [expr (d 1)]\<rparr>\<rparr>
     else if yynt = 6 then s\<lparr>yyVAL := (yyVAL s)\<lparr>exprs := exprs (d 1) @ [expr (d 3)]\<rparr>\<rparr>
     else if yynt = 7 then s\<lparr>yyVAL := (yyVAL s)\<lparr>expr := LitExpr (lit (d 1))\<rparr>\<rparr>
     else if yynt = 8 then s\<lparr>yyVAL := (yyVAL s)\<lparr>expr := expr (d 2)\<rparr>\<rparr>
     else if yynt = 9 then s\<lparr>yyVAL := (yyVAL s)\<lparr>expr := BinOpExpr ''+'' (expr (d 1)) (expr (d 3))\<rparr>\<rparr>
     else if yynt = 10 then s\<lparr>yyVAL := (yyVAL s)\<lparr>expr := BinOpExpr ''-'' (expr (d 1)) (expr (d 3))\<rparr>\<rparr>
     else if yynt = 11 then s\<lparr>yyVAL := (yyVAL s)\<lparr>expr := BinOpExpr ''*'' (expr (d 1)) (expr (d 3))\<rparr>\<rparr>
     else if yynt = 12 then s\<lparr>yyVAL := (yyVAL s)\<lparr>expr := BinOpExpr ''/'' (expr (d 1)) (expr (d 3))\<rparr>\<rparr>
     else if yynt = 13 then s\<lparr>yyVAL := (yyVAL s)\<lparr>expr := CallExpr (str (d 1)) (exprs (d 3))\<rparr>\<rparr>
     else if yynt = 14 then
       s\<lparr>yyVAL := (yyVAL s)\<lparr>expr := MethodCallExpr (expr (d 1)) (str (d 3)) (exprs (d 5))\<rparr>\<rparr>
     else if yynt = 15 then s\<lparr>yyVAL := (yyVAL s)\<lparr>expr := MemberExpr (expr (d 1)) (str (d 3))\<rparr>\<rparr>
     else if yynt = 16 then s\<lparr>yyVAL := (yyVAL s)\<lparr>expr := ItemExpr (expr (d 1)) (expr (d 3))\<rparr>\<rparr>
     else if yynt = 17 then s\<lparr>yyVAL := (yyVAL s)\<lparr>expr := IdentExpr (str (d 1))\<rparr>\<rparr>
     else s)"

text \<open>Reduction by production \<open>yyn\<close>: pop the right-hand side, take \<^verbatim>\<open>yyS[yyp+1]\<close> as the
  default value, find the next state in the goto table, run the action, and push. The Go
  code indexes the stack below its bottom when the stack is too short: a crash.\<close>

definition yyreduce :: "pstate \<Rightarrow> int \<Rightarrow> pstep" where
  "yyreduce s yyn =
     (let n = nat (at yyR2 yyn) in
      if n \<ge> length (stack s) then Crash
      else
        let stk = drop n (stack s);
            ab = rev (take n (stack s)) @ above s;
            val = (case ab of [] \<Rightarrow> zeroSym | x # _ \<Rightarrow> x);
            nt = at yyR1 yyn;
            yyg = at yyPgo nt;
            yyj = yyg + yys (hd stk) + 1;
            st = (if yyj \<ge> yyLast then at yyAct yyg
                  else if at yyChk (at yyAct yyj) \<noteq> - nt then at yyAct yyg
                  else at yyAct yyj);
            s1 = action yyn (dollar ab) (s\<lparr> stack := stk, above := ab, yyVAL := val, yystate := st \<rparr>)
        in Continue (yystack s1))"

text \<open>The error branch (\<open>yyn = 0\<close>) of label \<^verbatim>\<open>yydefault\<close>, by the value of \<^verbatim>\<open>Errflag\<close>.\<close>

definition yyerror :: "pstate \<Rightarrow> pstep" where
  "yyerror s =
     (if Errflag s = 0 then recover (s\<lparr>Nerrs := Nerrs s + 1\<rparr>)
      else if Errflag s = 1 \<or> Errflag s = 2 then recover s
      else if Errflag s = 3 then
        (if yytoken s = yyEofCode then Done 1 s
         else Continue (s\<lparr>yychar := - 1, yytoken := - 1\<rparr>))
      else yyreduce s 0)"

definition yydefault :: "pstate \<Rightarrow> pstep" where
  "yydefault s =
     (let yyn = at yyDef (yystate s) in
      if yyn = - 2 then
        (let s1 = lookahead s in
         case exca_state yyExca (yystate s1) of
           None \<Rightarrow> Crash
         | Some rest \<Rightarrow>
             (case exca_tok rest (yytoken s1) of
                None \<Rightarrow> Crash
              | Some yyn \<Rightarrow>
                  if yyn < 0 then Done 0 s1
                  else if yyn = 0 then yyerror s1
                  else yyreduce s1 yyn))
      else if yyn = 0 then yyerror s
      else yyreduce s yyn)"

text \<open>From label \<^verbatim>\<open>yynewstate\<close> to the next arrival there, or to a return.\<close>

definition yynewstate :: "pstate \<Rightarrow> pstep" where
  "yynewstate s0 =
     (if at yyPact (yystate s0) \<le> yyFlag then yydefault s0
      else
        let s = lookahead s0;
            yyn = at yyPact (yystate s) + yytoken s
        in if yyn < 0 \<or> yyn \<ge> yyLast then yydefault s
           else if at yyChk (at yyAct yyn) = yytoken s then
             Continue (yystack (s\<lparr> yychar := - 1, yytoken := - 1, yyVAL := lval s,
               yystate := at yyAct yyn,
               Errflag := (if Errflag s > 0 then Errflag s - 1 else Errflag s) \<rparr>))
           else yydefault s)"

datatype parse_result = Parsed int Lexer | ParsePanic

text \<open>The loop of \<^verbatim>\<open>Parse\<close>; \<open>None\<close> stands for a loop that never returns.\<close>

partial_function (option) yyloop :: "pstate \<Rightarrow> parse_result option" where
  "yyloop s =
     (case yynewstate s of
        Continue s' \<Rightarrow> yyloop s'
      | Done r s' \<Rightarrow> Some (Parsed r (lexer s'))
      | Crash \<Rightarrow> Some ParsePanic)"

definition initial :: "Lexer \<Rightarrow> pstate" where
  "initial lx = \<lparr> stack = [], above = [], yystate = 0, yychar = - 1, yytoken = - 1,
     lval = zeroSym, yyVAL = zeroSym, Errflag = 0, Nerrs = 0, lexer = lx \<rparr>"

definition yyParse :: "Lexer \<Rightarrow> parse_result option" where
  "yyParse lx = yyloop (yystack (initial lx))"

subsection \<open>From source text to tokens\<close>

definition is_space :: "char \<Rightarrow> bool" where
  "is_space c \<longleftrightarrow> (of_char c :: nat) \<in> {32, 9, 10, 13}"

definition is_alnum :: "char \<Rightarrow> bool" where
  "is_alnum c \<longleftrightarrow> is_letter_digit c \<or> is_digit c"

definition word_lexeme :: "string \<Rightarrow> lexeme" where
  "word_lexeme w = (if w = ''for'' then LFor else if w = ''in'' then LIn else LIdent w)"

text \<open>A lexical error reaches the parser as a character it has no token for.\<close>

definition bad_lexeme :: lexeme where
  "bad_lexeme = LChar 1"

definition int_lexeme :: "string \<Rightarrow> lexeme" where
  "int_lexeme w = (case ParseInt w of Inr i \<Rightarrow> LLit (VInt64 i) | Inl _ \<Rightarrow> bad_lexeme)"

definition float_lexeme :: "host \<Rightarrow> string \<Rightarrow> lexeme" where
  "float_lexeme h w = (case parse_float h w of Inr x \<Rightarrow> LLit (VFloat64 x) | Inl _ \<Rightarrow> bad_lexeme)"

text \<open>
  Modelled from the spec: the scanner behind the lexer is not part of the source at hand.
  By the spec it recognises identifiers (a letter, then letters and digits), decimal
  integer and floating-point literals, double-quoted string literals without escape
  sequences, the keywords \<^verbatim>\<open>for\<close> and \<^verbatim>\<open>in\<close>, and hands any other character that is not
  white space to the parser as it is.
\<close>

function scan :: "host \<Rightarrow> string \<Rightarrow> lexeme list" where
  "scan h [] = []"
| "scan h (c # cs) =
     (if is_space c then scan h cs
      else if is_letter_digit c then
        word_lexeme (c # takeWhile is_alnum cs) # scan h (dropWhile is_alnum cs)
      else if is_digit c then
        (let r = dropWhile is_digit cs in
         if r \<noteq> [] \<and> hd r = CHR ''.'' then
           float_lexeme h (c # takeWhile is_digit cs @ CHR ''.'' # takeWhile is_digit (tl r))
             # scan h (dropWhile is_digit (tl r))
         else int_lexeme (c # takeWhile is_digit cs) # scan h r)
      else if c = CHR 0x22 then
        (let r = dropWhile (\<lambda>x. x \<noteq> CHR 0x22) cs in
         if r = [] then [bad_lexeme]
         else LLit (VString (takeWhile (\<lambda>x. x \<noteq> CHR 0x22) cs)) # scan h (tl r))
      else LChar (of_char c) # scan h cs)"
  by pat_completeness auto
termination
proof (relation "measure (\<lambda>(h, s). length s)", goal_cases)
  have A: "length (dropWhile P (tl (dropWhile P xs))) < Suc (length xs)"
    for P and xs :: string
  proof -
    have "length (dropWhile P (tl (dropWhile P xs))) \<le> length (tl (dropWhile P xs))"
      by (rule length_dropWhile_le)
    also have "\<dots> \<le> length (dropWhile P xs)" by simp
    also have "\<dots> \<le> length xs" by (rule length_dropWhile_le)
    finally show ?thesis by simp
  qed
  have B: "length (tl (dropWhile P xs)) < Suc (length xs)" for P and xs :: string
  proof -
    have "length (tl (dropWhile P xs)) \<le> length (dropWhile P xs)" by simp
    also have "\<dots> \<le> length xs" by (rule length_dropWhile_le)
    finally show ?thesis by simp
  qed
  have C: "length (dropWhile P xs) < Suc (length xs)" for P and xs :: string
    by (simp add: le_imp_less_Suc length_dropWhile_le)
  {
    case 1
    show ?case by simp
  next
    case 2
    then show ?case by simp
  next
    case 3
    then show ?case using C by simp
  next
    case 4
    then show ?case using A by simp
  next
    case 5
    then show ?case using C by simp
  next
    case 6
    then show ?case using B by simp
  next
    case 7
    then show ?case by simp
  }
qed

subsection \<open>\<^verbatim>\<open>Compile\<close>\<close>

record VM =
  vm_env :: env

datatype cresult = Compiled Expr | CompileError error | CompilePanic

text \<open>\<^verbatim>\<open>Compile\<close> returns the machine as the call leaves it and the result of the call;
  \<open>None\<close> stands for a call that never returns.\<close>

definition Compile :: "host \<Rightarrow> VM \<Rightarrow> string \<Rightarrow> (VM \<times> cresult) option" where
  "Compile h v s =
     (case yyParse \<lparr> toks = scan h s, lex_e = NilExpr \<rparr> of
        None \<Rightarrow> None
      | Some ParsePanic \<Rightarrow> Some (v, CompilePanic)
      | Some (Parsed r lx) \<Rightarrow>
          if r \<noteq> 0 then Some (v, CompileError (EStr (''syntax error: '' @ s)))
          else Some (v, Compiled (lex_e lx)))"

section \<open>An abstract view of the parser\<close>

text \<open>
  For reasoning about all inputs of a shape, the run of \<^verbatim>\<open>Parse\<close> is followed on a view
  that keeps of every stack entry its state and the one field of the record that belongs
  to its grammar symbol, and of the lexer the tokens not yet shifted. The view reads the
  same tables. It covers shifts and the reductions of the productions for \<^verbatim>\<open>for\<close>,
  literals, identifiers, parentheses and the four operators; where it has no step it says
  nothing.
\<close>

datatype sval = SE Expr | SL "Expr list" | ST lexeme | SNone

record acfg =
  astk :: "(int \<times> sval) list"
  ainp :: "lexeme list"
  ares :: Expr

definition peek :: "lexeme list \<Rightarrow> int" where
  "peek inp = (case inp of [] \<Rightarrow> tokenOf (- 1) | t # _ \<Rightarrow> tokenOf (lexChar t))"

definition shiftable :: "int \<Rightarrow> int \<Rightarrow> bool" where
  "shiftable q t \<longleftrightarrow>
     at yyPact q > yyFlag \<and> 0 \<le> at yyPact q + t \<and> at yyPact q + t < yyLast \<and>
     at yyChk (at yyAct (at yyPact q + t)) = t"

definition gotoState :: "int \<Rightarrow> int \<Rightarrow> int" where
  "gotoState p yyn =
     (let nt = at yyR1 yyn; yyg = at yyPgo nt; yyj = yyg + p + 1
      in if yyj \<ge> yyLast then at yyAct yyg
         else if at yyChk (at yyAct yyj) \<noteq> - nt then at yyAct yyg
         else at yyAct yyj)"

fun sem_for1 :: "sval list \<Rightarrow> Expr option" where
  "sem_for1 [a, ST (LIdent x), b, SE body] = Some (ForExpr x [] body)"
| "sem_for1 _ = None"

fun sem_for2 :: "sval list \<Rightarrow> Expr option" where
  "sem_for2 [a, ST (LIdent x), b, ST (LIdent y), c, SE body] = Some (ForExpr x y body)"
| "sem_for2 _ = None"

fun sem_top :: "sval list \<Rightarrow> Expr option" where
  "sem_top [SE b] = Some b"
| "sem_top _ = None"

fun sem_lit :: "sval list \<Rightarrow> Expr option" where
  "sem_lit [ST (LLit v)] = Some (LitExpr v)"
| "sem_lit _ = None"

fun sem_ident :: "sval list \<Rightarrow> Expr option" where
  "sem_ident [ST (LIdent x)] = Some (IdentExpr x)"
| "sem_ident _ = None"

fun sem_paren :: "sval list \<Rightarrow> Expr option" where
  "sem_paren [a, SE b, c] = Some b"
| "sem_paren _ = None"

fun sem_binop :: "string \<Rightarrow> sval list \<Rightarrow> Expr option" where
  "sem_binop op [SE a, b, SE c] = Some (BinOpExpr op a c)"
| "sem_binop op _ = None"

text \<open>The value pushed by a reduction and the result slot after it.\<close>

definition sem :: "int \<Rightarrow> sval list \<Rightarrow> Expr \<Rightarrow> (sval \<times> Expr) option" where
  "sem r vs res =
     (if r = 1 then map_option (\<lambda>x. (hd vs, x)) (sem_for1 vs)
      else if r = 2 then map_option (\<lambda>x. (hd vs, x)) (sem_for2 vs)
      else if r = 3 then map_option (\<lambda>x. (hd vs, x)) (sem_top vs)
      else if r = 7 then map_option (\<lambda>x. (SE x, res)) (sem_lit vs)
      else if r = 8 then map_option (\<lambda>x. (SE x, res)) (sem_paren vs)
      else if r = 9 then map_option (\<lambda>x. (SE x, res)) (sem_binop ''+'' vs)
      else if r = 10 then map_option (\<lambda>x. (SE x, res)) (sem_binop ''-'' vs)
      else if r = 11 then map_option (\<lambda>x. (SE x, res)) (sem_binop ''*'' vs)
      else if r = 12 then map_option (\<lambda>x. (SE x, res)) (sem_binop ''/'' vs)
      else if r = 17 then map_option (\<lambda>x. (SE x, res)) (sem_ident vs)
      else None)"

definition astep :: "acfg \<Rightarrow> acfg option" where
  "astep a =
     (case astk a of
        [] \<Rightarrow> None
      | (q, _) # _ \<Rightarrow>
          let t = peek (ainp a) in
          if shiftable q t then
            (case ainp a of
               [] \<Rightarrow> None
             | x # rest \<Rightarrow>
                 Some (a\<lparr> astk := (at yyAct (at yyPact q + t), ST x) # astk a, ainp := rest \<rparr>))
          else
            let r = at yyDef q; n = nat (at yyR2 r) in
            if r \<le> 0 \<or> n \<ge> length (astk a) then None
            else
              (case sem r (map snd (rev (take n (astk a)))) (ares a) of
                 None \<Rightarrow> None
               | Some (v, res) \<Rightarrow>
                   Some (a\<lparr> astk := (gotoState (fst (hd (drop n (astk a)))) r, v) # drop n (astk a),
                            ares := res \<rparr>)))"

text \<open>Several steps of the view.\<close>

inductive asteps :: "acfg \<Rightarrow> acfg \<Rightarrow> bool" where
  asteps_refl: "asteps a a"
| asteps_step: "astep a = Some b \<Longrightarrow> asteps b c \<Longrightarrow> asteps a c"

text \<open>How a state of \<^verbatim>\<open>Parse\<close> and a state of the view correspond.\<close>

fun val_rel :: "yySymType \<Rightarrow> sval \<Rightarrow> bool" where
  "val_rel x (SE b) = (expr x = b)"
| "val_rel x (SL l) = (exprs x = l)"
| "val_rel x (ST (LIdent n)) = (str x = n)"
| "val_rel x (ST (LLit v)) = (lit x = v)"
| "val_rel x _ = True"

definition ent_rel :: "yySymType \<Rightarrow> int \<times> sval \<Rightarrow> bool" where
  "ent_rel x p \<longleftrightarrow> yys x = fst p \<and> val_rel x (snd p)"

definition input_rel :: "pstate \<Rightarrow> lexeme list \<Rightarrow> bool" where
  "input_rel s inp \<longleftrightarrow>
     (if yychar s < 0 then toks (lexer s) = inp
      else (case inp of
              [] \<Rightarrow> False
            | t # rest \<Rightarrow> toks (lexer s) = rest \<and> yychar s = lexChar t \<and>
                yytoken s = tokenOf (lexChar t) \<and> val_rel (lval s) (ST t)))"

definition corresp :: "pstate \<Rightarrow> acfg \<Rightarrow> bool" where
  "corresp s a \<longleftrightarrow>
     Errflag s = 0 \<and> list_all2 ent_rel (stack s) (astk a) \<and> stack s \<noteq> [] \<and>
     yystate s = yys (hd (stack s)) \<and> lex_e (lexer s) = ares a \<and> input_rel s (ainp a)"

section \<open>Source expressions\<close>

text \<open>
  The token sequences of the grammar \<^verbatim>\<open>expr := expr op expr | ( expr ) | IDENT | LIT\<close> are
  an atom followed by any number of pairs of an operator and an atom. Such a sequence is
  written here as the tree nested to the right: an atom alone, or an atom, an operator and
  the rest.
\<close>

datatype binop = Plus | Minus | Times | Divide

fun opChar :: "binop \<Rightarrow> nat" where
  "opChar Plus = 43"
| "opChar Minus = 45"
| "opChar Times = 42"
| "opChar Divide = 47"

fun opStr :: "binop \<Rightarrow> string" where
  "opStr Plus = ''+''"
| "opStr Minus = ''-''"
| "opStr Times = ''*''"
| "opStr Divide = ''/''"

datatype atom = ALit val | AIdent string | APar rexp
  and rexp = RAtom atom | ROp atom binop rexp

fun atom_toks :: "atom \<Rightarrow> lexeme list" and rexp_toks :: "rexp \<Rightarrow> lexeme list" where
  "atom_toks (ALit v) = [LLit v]"
| "atom_toks (AIdent x) = [LIdent x]"
| "atom_toks (APar b) = LChar 40 # rexp_toks b @ [LChar 41]"
| "rexp_toks (RAtom a) = atom_toks a"
| "rexp_toks (ROp a f b) = atom_toks a @ LChar (opChar f) # rexp_toks b"

text \<open>The expression read with every operator taking all that follows as its right
  operand.\<close>

fun atom_ast :: "atom \<Rightarrow> Expr" and rexp_ast :: "rexp \<Rightarrow> Expr" where
  "atom_ast (ALit v) = LitExpr v"
| "atom_ast (AIdent x) = IdentExpr x"
| "atom_ast (APar b) = rexp_ast b"
| "rexp_ast (RAtom a) = atom_ast a"
| "rexp_ast (ROp a f b) = BinOpExpr (opStr f) (atom_ast a) (rexp_ast b)"

text \<open>Expressions built from integer literals only, and their value in 64-bit
  arithmetic read the same way; \<open>None\<close> when a division by zero is met.\<close>

fun atom_ints :: "atom \<Rightarrow> bool" and rexp_ints :: "rexp \<Rightarrow> bool" where
  "atom_ints (ALit v) = (case v of VInt64 _ \<Rightarrow> True | _ \<Rightarrow> False)"
| "atom_ints (AIdent x) = False"
| "atom_ints (APar b) = rexp_ints b"
| "rexp_ints (RAtom a) = atom_ints a"
| "rexp_ints (ROp a f b) = (atom_ints a \<and> rexp_ints b)"

fun arith :: "binop \<Rightarrow> int64 \<Rightarrow> int64 \<Rightarrow> int64 option" where
  "arith Plus x y = Some (x + y)"
| "arith Minus x y = Some (x - y)"
| "arith Times x y = Some (x * y)"
| "arith Divide x y = (if y = 0 then None else Some (word_of_int (sint x sdiv sint y)))"

fun atom_value :: "atom \<Rightarrow> int64 option" and rexp_value :: "rexp \<Rightarrow> int64 option" where
  "atom_value (ALit v) = (case v of VInt64 i \<Rightarrow> Some i | _ \<Rightarrow> None)"
| "atom_value (AIdent x) = None"
| "atom_value (APar b) = rexp_value b"
| "rexp_value (RAtom a) = atom_value a"
| "rexp_value (ROp a f b) =
     (case atom_value a of
        None \<Rightarrow> None
      | Some x \<Rightarrow> (case rexp_value b of None \<Rightarrow> None | Some y \<Rightarrow> arith f x y))"

text \<open>The states of the parser in which an expression may start, and what may follow an
  expression or an atom of the shapes above.\<close>

definition exprStart :: "int \<Rightarrow> bool" where
  "exprStart q \<longleftrightarrow> q \<in> {0, 5, 8, 9, 10, 11, 16, 33}"

definition follow :: "lexeme list \<Rightarrow> bool" where
  "follow rest \<longleftrightarrow> rest = [] \<or> hd rest = LChar 41"

definition afollow :: "lexeme list \<Rightarrow> bool" where
  "afollow rest \<longleftrightarrow> rest = [] \<or> hd rest \<in> {LChar 41, LChar 43, LChar 45, LChar 42, LChar 47}"

section \<open>Notions used in the statements\<close>

text \<open>The call returned an error to its caller (it did not panic, and the error is set).\<close>

definition returnsError :: "outcome \<Rightarrow> bool" where
  "returnsError r = (case r of Ret _ (Some _) \<Rightarrow> True | _ \<Rightarrow> False)"





subsection \<open>A sample host and environment\<close>

definition one :: float where "one = FFin False 1 0"
definition zero :: float where "zero = FFin False 0 0"

definition sample_sprint :: "val \<Rightarrow> string" where
  "sample_sprint v = (if v = VFloat64 one then ''1'' else if v = VFloat64 zero then ''0'' else ''?'')"

definition sample_parse :: "string \<Rightarrow> error + float" where
  "sample_parse s = (if s = ''1'' then Inr one else if s = ''0'' then Inr zero
     else Inl (ENum ''ParseFloat'' s ''invalid syntax''))"

definition sample_host :: host where
  "sample_host = \<lparr> call = (\<lambda>i args. if i = 0 then CRet [VString ''ok''] else CPanic),
     sprint_other = sample_sprint, parse_float = sample_parse,
     fl_add = (\<lambda>x y. FNaN), fl_sub = (\<lambda>x y. FNaN), fl_mul = (\<lambda>x y. FNaN),
     fl_quot = (\<lambda>x y. FNaN) \<rparr>"

definition counter_type :: tydesc where
  "counter_type = TyDesc ''Counter'' [(''Get'', 1)] [(''Inc'', 0)]"

definition sample_env :: env where
  "sample_env = [''n'' \<mapsto> VInt64 1,
     ''s'' \<mapsto> VStruct [(''A'', VInt64 7)],
     ''xs'' \<mapsto> VSlice [VInt64 10, VInt64 20],
     ''c'' \<mapsto> VNamed counter_type (VStruct [(''N'', VInt64 0)]),
     ''p'' \<mapsto> VPtr None,
     ''f'' \<mapsto> VFunc 0]"

section \<open>Properties\<close>

subsection \<open>Decimal text of an integer parses back to it\<close>












subsection \<open>Kinds\<close>

lemma Kind_underlying: "Kind (underlying v) = Kind v"
  by (induction v rule: underlying.induct) simp_all

subsection \<open>Nodes without a case in the evaluator\<close>

text \<open>
  C9. Evaluating an expression variant that \<^verbatim>\<open>Eval\<close> has no case for, in particular a
  \<^verbatim>\<open>ForExpr\<close> (and the nil expression), returns the nil value together with a nil
  error: no error is signalled.
\<close>

theorem Eval_unhandled_nil:
  "Eval h env (ForExpr x i e) = Ret VNil None \<and> Eval h env NilExpr = Ret VNil None"
  by simp

subsection \<open>A string on the left\<close>

text \<open>
  C5. When the left operand of a \<^verbatim>\<open>BinOpExpr\<close> evaluates to a string (and the right
  operand evaluates to a value), operator \<^verbatim>\<open>+\<close> yields the left string followed by the
  default text of the right value, whatever its type; any other operator fails with the
  error "unknown operator".
\<close>

theorem string_plus_concat:
  assumes "Eval h env l = Ret (VString s) None" and "Eval h env r = Ret rhs None"
  shows "Eval h env (BinOpExpr op l r) =
           (if op = ''+'' then Ret (VString (s @ fmtSprint h rhs)) None
            else Ret VNil (Some (EStr ''unknown operator'')))"
  using assms by (simp add: binOp_def)

theorem string_plus_concat_witness:
  "Eval sample_host sample_env (BinOpExpr ''+'' (LitExpr (VString ''a'')) (LitExpr (VInt64 1)))
     = Ret (VString ''a1'') None \<and>
   Eval sample_host sample_env (BinOpExpr ''-'' (LitExpr (VString ''a'')) (LitExpr (VInt64 1)))
     = Ret VNil (Some (EStr ''unknown operator''))"
proof -
  have l: "Eval sample_host sample_env (LitExpr (VString ''a'')) = Ret (VString ''a'') None"
    by simp
  have r: "Eval sample_host sample_env (LitExpr (VInt64 1)) = Ret (VInt64 1) None"
    by simp
  have t: "fmtSprint sample_host (VInt64 1) = ''1''"
    by (simp add: itoa_def digits.simps digit_char_def)
  show ?thesis
    using string_plus_concat [OF l r, of "''+''"] string_plus_concat [OF l r, of "''-''"] t
    by simp
qed

subsection \<open>Calling a name\<close>

lemma not_func_underlying:
  "Kind f \<noteq> KindFunc \<Longrightarrow> reflectCall h f args = Panic ReflectCall"
proof -
  assume "Kind f \<noteq> KindFunc"
  then have "Kind (underlying f) \<noteq> KindFunc" by (simp add: Kind_underlying)
  then show ?thesis by (cases "underlying f") (simp_all add: reflectCall_def)
qed

text \<open>
  C4 (as the code has it). A \<^verbatim>\<open>CallExpr\<close> whose name is absent from the environment fails
  with the error "invalid token: name". When the name is bound to a value that is not a
  function and the arguments evaluate without error, \<^verbatim>\<open>reflect.Value.Call\<close> panics: the
  call does not return an error to the caller.
\<close>

theorem call_unbound_or_not_callable:
  "(env n = None \<longrightarrow>
      Eval h env (CallExpr n es) = Ret VNil (Some (EStr (''invalid token: '' @ n)))) \<and>
   (env n = Some f \<and> Kind f \<noteq> KindFunc \<and> evalArgs h env es = Ok args \<longrightarrow>
      Eval h env (CallExpr n es) = Panic ReflectCall)"
  by (simp add: not_func_underlying)

theorem call_unbound_or_not_callable_witness:
  "Eval sample_host sample_env (CallExpr ''nope'' []) = Ret VNil (Some (EStr ''invalid token: nope'')) \<and>
   Eval sample_host sample_env (CallExpr ''n'' []) = Panic ReflectCall"
proof -
  have a: "sample_env ''nope'' = None" by (simp add: sample_env_def)
  have b: "sample_env ''n'' = Some (VInt64 1) \<and> Kind (VInt64 1) \<noteq> KindFunc \<and>
           evalArgs sample_host sample_env [] = Ok []"
    by (simp add: sample_env_def)
  show ?thesis
    using call_unbound_or_not_callable [of sample_env "''nope''" sample_host "[]" "VInt64 1" "[]"]
      call_unbound_or_not_callable [of sample_env "''n''" sample_host "[]" "VInt64 1" "[]"] a b
    by simp
qed

text \<open>
  C4 as stated fails: calling the name \<^verbatim>\<open>n\<close>, bound to the integer 1, does not return an
  error.
\<close>

theorem call_not_callable_counterexample:
  "\<not> returnsError (Eval sample_host sample_env (CallExpr ''n'' []))"
  by (simp add: sample_env_def reflectCall_def returnsError_def)

subsection \<open>Methods with a pointer receiver\<close>

text \<open>
  C6. For a \<^verbatim>\<open>MethodCallExpr\<close> whose dereferenced receiver has the named method only with
  a pointer receiver, the lookup on the value fails, the lookup on a pointer to (a copy
  of) the value succeeds, and that method is called; "cannot reference method" is
  returned when both lookups fail.
\<close>

theorem method_pointer_receiver_fallback:
  assumes "derefOutcome (Eval h env l) = Ok rv"
  shows "(rv = VNamed (TyDesc tn vm pm) x \<and> map_of vm n = None \<and> map_of pm n = Some m \<longrightarrow>
            valueMethod rv n = None \<and> pointerMethod rv n = Some m) \<and>
         (valueMethod rv n = None \<and> pointerMethod rv n = Some m \<and> evalDerefArgs h env es = Ok args \<longrightarrow>
            Eval h env (MethodCallExpr l n es) = methodCall h m (VPtr (Some rv)) args) \<and>
         (valueMethod rv n = None \<and> pointerMethod rv n = None \<longrightarrow>
            Eval h env (MethodCallExpr l n es) =
              Ret VNil (Some (EStr (''cannot reference method: '' @ n))))"
  using assms by (auto simp: map_add_def)

theorem method_pointer_receiver_fallback_witness:
  "Eval sample_host sample_env (MethodCallExpr (IdentExpr ''c'') ''Inc'' []) = Ret (VString ''ok'') None \<and>
   Eval sample_host sample_env (MethodCallExpr (IdentExpr ''c'') ''Dec'' []) =
     Ret VNil (Some (EStr ''cannot reference method: Dec''))"
proof -
  let ?rv = "VNamed counter_type (VStruct [(''N'', VInt64 0)])"
  have d: "derefOutcome (Eval sample_host sample_env (IdentExpr ''c'')) = Ok ?rv"
    by (simp add: sample_env_def)
  have m: "valueMethod ?rv ''Inc'' = None \<and> pointerMethod ?rv ''Inc'' = Some 0 \<and>
           evalDerefArgs sample_host sample_env [] = Ok []"
    by (simp add: counter_type_def)
  have n: "valueMethod ?rv ''Dec'' = None \<and> pointerMethod ?rv ''Dec'' = None"
    by (simp add: counter_type_def)
  have c: "methodCall sample_host 0 (VPtr (Some ?rv)) [] = Ret (VString ''ok'') None"
    by (simp add: methodCall_def sample_host_def)
  show ?thesis
    using method_pointer_receiver_fallback [OF d, of "''Counter''" "[(''Get'', 1)]" "[(''Inc'', 0)]"
        "VStruct [(''N'', VInt64 0)]" "''Inc''" 0 "[]" "[]"]
      method_pointer_receiver_fallback [OF d, of "''Counter''" "[(''Get'', 1)]" "[(''Inc'', 0)]"
        "VStruct [(''N'', VInt64 0)]" "''Dec''" 0 "[]" "[]"] m n c
    by simp
qed

subsection \<open>Dereferencing\<close>

lemma deref_error: "deref v = Err e \<Longrightarrow> e = EStr ''cannot reference value''"
  by (induction v rule: deref.induct) (simp_all split: if_splits)








subsection \<open>Indexing\<close>





subsection \<open>Arithmetic on numbers\<close>









subsection \<open>The parser follows its abstract view\<close>

lemma lexChar_nonneg: "0 \<le> lexChar t"
  by (cases t) (simp_all add: IDENT_def FOR_def IN_def LIT_def)

lemma lookahead_corresp:
  assumes "corresp s a"
  shows "corresp (lookahead s) a" and "yytoken (lookahead s) = peek (ainp a)"
    and "stack (lookahead s) = stack s" and "above (lookahead s) = above s"
    and "yystate (lookahead s) = yystate s"
    and "ainp a = x # rest \<Longrightarrow> val_rel (lval (lookahead s)) (ST x) \<and> toks (lexer (lookahead s)) = rest"
proof -
  show "stack (lookahead s) = stack s" "above (lookahead s) = above s"
    "yystate (lookahead s) = yystate s"
    by (simp_all add: lookahead_def split: prod.splits)
  show "corresp (lookahead s) a"
  proof (cases "ainp a")
    case Nil
    with assms show ?thesis
      by (auto simp: corresp_def lookahead_def yylex1_def Lex_def input_rel_def
          split: prod.splits list.splits if_splits)
  next
    case (Cons t ts)
    with assms lexChar_nonneg [of t] show ?thesis
      by (cases t) (auto simp: corresp_def lookahead_def yylex1_def Lex_def input_rel_def
          split: prod.splits list.splits if_splits)
  qed
  show "yytoken (lookahead s) = peek (ainp a)"
    using assms
    by (auto simp: corresp_def lookahead_def yylex1_def Lex_def input_rel_def peek_def
        split: prod.splits list.splits if_splits)
  show "ainp a = x # rest \<Longrightarrow> val_rel (lval (lookahead s)) (ST x) \<and> toks (lexer (lookahead s)) = rest"
    using assms
    by (cases x) (auto simp: corresp_def lookahead_def yylex1_def Lex_def input_rel_def
        split: prod.splits list.splits if_splits)
qed


lemma val_rel_yys: "val_rel (x\<lparr>yys := q\<rparr>) v = val_rel x v"
  by (induction x v rule: val_rel.induct) simp_all

lemma corresp_state:
  assumes "corresp s a" and "astk a = (q, v) # stk"
  shows "yystate s = q"
  using assms by (cases "stack s") (auto simp: corresp_def ent_rel_def)

lemma shift_sim:
  assumes c: "corresp s a" and st: "astk a = (q, v) # stk"
    and sh: "shiftable q (peek (ainp a))" and inp: "ainp a = x # rest"
  shows "\<exists>s'. yynewstate s = Continue s' \<and>
     corresp s' (a\<lparr> astk := (at yyAct (at yyPact q + peek (ainp a)), ST x) # astk a, ainp := rest \<rparr>)"
proof -
  let ?s1 = "lookahead s"
  have q: "yystate s = q" using corresp_state [OF c st] .
  have l: "corresp ?s1 a" "yytoken ?s1 = peek (ainp a)" "stack ?s1 = stack s"
    "yystate ?s1 = yystate s" "val_rel (lval ?s1) (ST x)" "toks (lexer ?s1) = rest"
    using lookahead_corresp [OF c] inp by simp_all
  let ?s' = "yystack (?s1\<lparr> yychar := - 1, yytoken := - 1, yyVAL := lval ?s1,
               yystate := at yyAct (at yyPact q + peek (ainp a)),
               Errflag := (if Errflag ?s1 > 0 then Errflag ?s1 - 1 else Errflag ?s1) \<rparr>)"
  have "yynewstate s = Continue ?s'"
    using sh q l(2,4) by (simp add: yynewstate_def shiftable_def Let_def)
  moreover have "corresp ?s' (a\<lparr> astk := (at yyAct (at yyPact q + peek (ainp a)), ST x) # astk a, ainp := rest \<rparr>)"
    using l c by (auto simp: corresp_def yystack_def ent_rel_def input_rel_def val_rel_yys)
  ultimately show ?thesis by blast
qed

lemma action_frame:
  "stack (action r d s) = stack s \<and> above (action r d s) = above s \<and>
   yystate (action r d s) = yystate s \<and> yychar (action r d s) = yychar s \<and>
   yytoken (action r d s) = yytoken s \<and> lval (action r d s) = lval s \<and>
   Errflag (action r d s) = Errflag s \<and> toks (lexer (action r d s)) = toks (lexer s)"
  by (simp add: action_def)

lemma dollar_nth: "k \<ge> 1 \<Longrightarrow> k \<le> length cs \<Longrightarrow> dollar (cs @ ab) k = cs ! (k - 1)"
  by (simp add: dollar_def nth_append)

lemma action_sem:
  assumes rel: "list_all2 ent_rel cs as"
    and sm: "sem r (map snd as) res = Some (v, res')"
    and res: "lex_e (lexer s) = res"
    and val: "yyVAL s = (case cs @ ab of [] \<Rightarrow> zeroSym | x # _ \<Rightarrow> x)"
  shows "val_rel (yyVAL (action r (dollar (cs @ ab)) s)) v \<and>
         lex_e (lexer (action r (dollar (cs @ ab)) s)) = res'"
proof -
  consider "r = 1" | "r = 2" | "r = 3" | "r = 7" | "r = 8" | "r = 9" | "r = 10" | "r = 11"
    | "r = 12" | "r = 17"
    using sm by (auto simp: sem_def split: if_splits)
  then show ?thesis
  proof cases
    case 1
    with sm obtain a x b body where "map snd as = [a, ST (LIdent x), b, SE body]"
      "v = a" "res' = ForExpr x [] body"
      by (auto simp: sem_def elim!: sem_for1.elims)
    with rel val res 1 show ?thesis
      by (auto simp: list_all2_Cons2 ent_rel_def action_def dollar_def)
  next
    case 2
    with sm obtain a x b y c body where
      "map snd as = [a, ST (LIdent x), b, ST (LIdent y), c, SE body]"
      "v = a" "res' = ForExpr x y body"
      by (auto simp: sem_def elim!: sem_for2.elims)
    with rel val res 2 show ?thesis
      by (auto simp: list_all2_Cons2 ent_rel_def action_def dollar_def)
  next
    case 3
    with sm obtain b where "map snd as = [SE b]" "v = SE b" "res' = b"
      by (auto simp: sem_def elim!: sem_top.elims)
    with rel val res 3 show ?thesis
      by (auto simp: list_all2_Cons2 ent_rel_def action_def dollar_def)
  next
    case 4
    with sm obtain x where "map snd as = [ST (LLit x)]" "v = SE (LitExpr x)" "res' = res"
      by (auto simp: sem_def elim!: sem_lit.elims)
    with rel val res 4 show ?thesis
      by (auto simp: list_all2_Cons2 ent_rel_def action_def dollar_def)
  next
    case 5
    with sm obtain a b c where "map snd as = [a, SE b, c]" "v = SE b" "res' = res"
      by (auto simp: sem_def elim!: sem_paren.elims)
    with rel val res 5 show ?thesis
      by (auto simp: list_all2_Cons2 ent_rel_def action_def dollar_def)
  next
    case 6
    with sm obtain a b c where "map snd as = [SE a, b, SE c]" "v = SE (BinOpExpr ''+'' a c)" "res' = res"
      by (auto simp: sem_def elim!: sem_binop.elims)
    with rel val res 6 show ?thesis
      by (auto simp: list_all2_Cons2 ent_rel_def action_def dollar_def)
  next
    case 7
    with sm obtain a b c where "map snd as = [SE a, b, SE c]" "v = SE (BinOpExpr ''-'' a c)" "res' = res"
      by (auto simp: sem_def elim!: sem_binop.elims)
    with rel val res 7 show ?thesis
      by (auto simp: list_all2_Cons2 ent_rel_def action_def dollar_def)
  next
    case 8
    with sm obtain a b c where "map snd as = [SE a, b, SE c]" "v = SE (BinOpExpr ''*'' a c)" "res' = res"
      by (auto simp: sem_def elim!: sem_binop.elims)
    with rel val res 8 show ?thesis
      by (auto simp: list_all2_Cons2 ent_rel_def action_def dollar_def)
  next
    case 9
    with sm obtain a b c where "map snd as = [SE a, b, SE c]" "v = SE (BinOpExpr ''/'' a c)" "res' = res"
      by (auto simp: sem_def elim!: sem_binop.elims)
    with rel val res 9 show ?thesis
      by (auto simp: list_all2_Cons2 ent_rel_def action_def dollar_def)
  next
    case 10
    with sm obtain x where "map snd as = [ST (LIdent x)]" "v = SE (IdentExpr x)" "res' = res"
      by (auto simp: sem_def elim!: sem_ident.elims)
    with rel val res 10 show ?thesis
      by (auto simp: list_all2_Cons2 ent_rel_def action_def dollar_def)
  qed
qed


lemma input_rel_cong:
  "yychar s' = yychar s \<Longrightarrow> yytoken s' = yytoken s \<Longrightarrow> lval s' = lval s \<Longrightarrow>
   toks (lexer s') = toks (lexer s) \<Longrightarrow> input_rel s' inp = input_rel s inp"
  by (cases inp) (simp_all add: input_rel_def)

lemma reduce_sim:
  assumes c: "corresp s a" and r: "r > 0" and n: "n = nat (at yyR2 r)" "n < length (astk a)"
    and sm: "sem r (map snd (rev (take n (astk a)))) (ares a) = Some (v, res')"
  shows "\<exists>s'. yyreduce s r = Continue s' \<and>
     corresp s' (a\<lparr> astk := (gotoState (fst (hd (drop n (astk a)))) r, v) # drop n (astk a),
                     ares := res' \<rparr>)"
proof -
  let ?cs = "rev (take n (stack s))" and ?as = "rev (take n (astk a))"
  let ?stk = "drop n (stack s)"
  have rel: "list_all2 ent_rel (stack s) (astk a)" using c by (simp add: corresp_def)
  then have len: "length (stack s) = length (astk a)" by (rule list_all2_lengthD)
  have rel1: "list_all2 ent_rel ?cs ?as" using rel by (simp add: list_all2_takeI)
  have rel2: "list_all2 ent_rel ?stk (drop n (astk a))" using rel by (simp add: list_all2_dropI)
  have ne: "?stk \<noteq> []" "drop n (astk a) \<noteq> []" using n len by simp_all
  then have top: "yys (hd ?stk) = fst (hd (drop n (astk a)))"
    using rel2 by (cases ?stk; cases "drop n (astk a)") (auto simp: ent_rel_def)
  let ?val = "(case ?cs @ above s of [] \<Rightarrow> zeroSym | x # _ \<Rightarrow> x)"
  let ?s0 = "s\<lparr> stack := ?stk, above := ?cs @ above s, yyVAL := ?val,
     yystate := gotoState (yys (hd ?stk)) r \<rparr>"
  define s1 where "s1 = action r (dollar (?cs @ above s)) ?s0"
  have red: "yyreduce s r = Continue (yystack s1)"
    using n len by (simp add: yyreduce_def gotoState_def Let_def s1_def)
  have "lex_e (lexer ?s0) = ares a" using c by (simp add: corresp_def)
  moreover have "yyVAL ?s0 = ?val" by simp
  ultimately have act: "val_rel (yyVAL s1) v" "lex_e (lexer s1) = res'"
    using action_sem [OF rel1 sm, of ?s0 "above s"] by (simp_all add: s1_def)
  have fr: "stack s1 = ?stk" "yystate s1 = gotoState (fst (hd (drop n (astk a)))) r"
    "yychar s1 = yychar s" "yytoken s1 = yytoken s" "lval s1 = lval s"
    "Errflag s1 = Errflag s" "toks (lexer s1) = toks (lexer s)"
    using action_frame [of r "dollar (?cs @ above s)" ?s0] top by (simp_all add: s1_def)
  have "input_rel (yystack s1) (ainp a) = input_rel s (ainp a)"
    using fr by (intro input_rel_cong) (simp_all add: yystack_def)
  then have inp: "input_rel (yystack s1) (ainp a)"
    using c by (simp add: corresp_def)
  have "corresp (yystack s1) (a\<lparr> astk := (gotoState (fst (hd (drop n (astk a)))) r, v) # drop n (astk a),
                     ares := res' \<rparr>)"
    using c act fr rel2 inp
    by (simp add: corresp_def yystack_def ent_rel_def val_rel_yys)
  with red show ?thesis by blast
qed

lemma step_sim:
  assumes c: "corresp s a" and st: "astep a = Some a'"
  shows "\<exists>s'. yynewstate s = Continue s' \<and> corresp s' a'"
proof -
  from st obtain q v stk where stk: "astk a = (q, v) # stk"
    by (cases "astk a") (auto simp: astep_def)
  have q: "yystate s = q" using corresp_state [OF c stk] .
  show ?thesis
  proof (cases "shiftable q (peek (ainp a))")
    case True
    with st stk obtain x rest where inp: "ainp a = x # rest"
      and a': "a' = a\<lparr> astk := (at yyAct (at yyPact q + peek (ainp a)), ST x) # astk a, ainp := rest \<rparr>"
      by (cases "ainp a") (auto simp: astep_def Let_def)
    show ?thesis using shift_sim [OF c stk True inp] a' by simp
  next
    case False
    let ?r = "at yyDef q" and ?n = "nat (at yyR2 (at yyDef q))"
    from st stk False have r: "?r > 0" and n: "?n < length (astk a)"
      by (auto simp: astep_def Let_def split: if_splits)
    from st stk False r n obtain w res' where
      sm: "sem ?r (map snd (rev (take ?n (astk a)))) (ares a) = Some (w, res')"
      and a': "a' = a\<lparr> astk := (gotoState (fst (hd (drop ?n (astk a)))) ?r, w) # drop ?n (astk a),
                       ares := res' \<rparr>"
      by (auto simp: astep_def Let_def split: option.splits)
    have l: "corresp (lookahead s) a" "yytoken (lookahead s) = peek (ainp a)"
      "yystate (lookahead s) = yystate s"
      using lookahead_corresp [OF c] by simp_all
    have d: "yydefault s = yyreduce s ?r" "yydefault (lookahead s) = yyreduce (lookahead s) ?r"
      using r q l(3) by (simp_all add: yydefault_def Let_def)
    have "yynewstate s = yyreduce s ?r \<or> yynewstate s = yyreduce (lookahead s) ?r"
      using False q l(2,3) d by (auto simp: yynewstate_def shiftable_def Let_def)
    then show ?thesis
      using reduce_sim [OF c r refl n sm] reduce_sim [OF l(1) r refl n sm] a' by auto
  qed
qed

lemma steps_sim:
  assumes "asteps a b" and "corresp s a"
  shows "\<exists>s'. corresp s' b \<and> yyloop s = yyloop s'"
  using assms
proof (induction arbitrary: s rule: asteps.induct)
  case (asteps_refl a)
  then show ?case by blast
next
  case (asteps_step a b c)
  from step_sim [OF asteps_step.prems asteps_step.hyps(1)]
  obtain s1 where s1: "yynewstate s = Continue s1" "corresp s1 b" by blast
  from asteps_step.IH [OF s1(2)] obtain s' where "corresp s' c" "yyloop s1 = yyloop s'" by blast
  moreover have "yyloop s = yyloop s1" using s1(1) by (subst yyloop.simps) simp
  ultimately show ?case by auto
qed

lemma tokenOf_eof: "tokenOf (- 1) = 1"
  by (simp add: tokenOf_def yyTok1_def at_def)

lemma accept_sim:
  assumes c: "corresp s a" and st: "astk a = (1, v) # stk" and inp: "ainp a = []"
  shows "\<exists>lx. yyloop s = Some (Parsed 0 lx) \<and> lex_e lx = ares a"
proof -
  have q: "yystate s = 1" using corresp_state [OF c st] .
  have l: "corresp (lookahead s) a" "yytoken (lookahead s) = 1" "yystate (lookahead s) = 1"
    using lookahead_corresp [OF c] inp q by (simp_all add: peek_def tokenOf_eof)
  have "yynewstate s = Done 0 (lookahead s)"
    using q l by (simp add: yynewstate_def yydefault_def yyPact_def yyDef_def yyExca_def at_def
        yyFlag_def Let_def)
  then have "yyloop s = Some (Parsed 0 (lexer (lookahead s)))"
    by (subst yyloop.simps) simp
  moreover have "lex_e (lexer (lookahead s)) = ares a" using l(1) by (simp add: corresp_def)
  ultimately show ?thesis by blast
qed

lemma initial_corresp:
  "corresp (yystack (initial lx)) \<lparr> astk = [(0, SNone)], ainp = toks lx, ares = lex_e lx \<rparr>"
  by (simp add: corresp_def yystack_def initial_def ent_rel_def input_rel_def)

lemma parse_accepts:
  assumes "asteps \<lparr> astk = [(0, SNone)], ainp = ts, ares = NilExpr \<rparr>
                  \<lparr> astk = (1, v) # stk, ainp = [], ares = b \<rparr>"
  shows "\<exists>lx. yyParse \<lparr> toks = ts, lex_e = NilExpr \<rparr> = Some (Parsed 0 lx) \<and> lex_e lx = b"
proof -
  have "corresp (yystack (initial \<lparr> toks = ts, lex_e = NilExpr \<rparr>))
          \<lparr> astk = [(0, SNone)], ainp = ts, ares = NilExpr \<rparr>"
    using initial_corresp [of "\<lparr> toks = ts, lex_e = NilExpr \<rparr>"] by simp
  from steps_sim [OF assms this] obtain s' where
    s': "corresp s' \<lparr> astk = (1, v) # stk, ainp = [], ares = b \<rparr>"
    and eq: "yyloop (yystack (initial \<lparr> toks = ts, lex_e = NilExpr \<rparr>)) = yyloop s'"
    by blast
  from accept_sim [OF s'] obtain lx where "yyloop s' = Some (Parsed 0 lx)" "lex_e lx = b"
    by auto
  with eq show ?thesis by (auto simp: yyParse_def)
qed

lemma compile_accepts:
  assumes "scan h s = ts"
    and "asteps \<lparr> astk = [(0, SNone)], ainp = ts, ares = NilExpr \<rparr>
                \<lparr> astk = (1, w) # stk, ainp = [], ares = b \<rparr>"
  shows "Compile h v s = Some (v, Compiled b)"
  using parse_accepts [OF assms(2)] assms(1) by (auto simp: Compile_def)

end
